theory Spec2Isabelle
  imports Main
begin

section \<open>The hosted backend as seen by the utilities\<close>

text \<open>
  The utilities in \<^verbatim>\<open>src/utils/rewardUtils.ts\<close>, \<^verbatim>\<open>src/utils/adminUtils.ts\<close> and
  \<^verbatim>\<open>src/utils/dbUtils.ts\<close> are sequences of awaited calls to a hosted store. Every call
  either resolves to an object with a \<^verbatim>\<open>data\<close> and an \<^verbatim>\<open>error\<close> field or rejects (throws
  inside the surrounding \<^verbatim>\<open>try\<close>). Which of the three happens is decided by the backend,
  not by the code, so it is an input of the model.
\<close>

datatype fault = NoFault | ErrorResult | Throws

datatype 'a outcome = Returns 'a | Raises

text \<open>The remote calls the three utilities issue, in the vocabulary of the source.\<close>

datatype call =
    TokenTransactionsInsert
  | UserTokensSelect
  | UserTokensInsert
  | UserTokensUpdate
  | AuthGetUser
  | AdminUsersSelect
  | AdminUsersInsert
  | IsAdminRpc

text \<open>Values a remote procedure may hand back in \<^verbatim>\<open>data\<close>.\<close>

datatype json = JNull | JBool bool | JNumber int | JString string

text \<open>
  Rows hold the columns the code writes or reads; \<^verbatim>\<open>id\<close> and \<^verbatim>\<open>created_at\<close> are filled in
  by the database and never inspected. JavaScript numbers are modelled as \<^typ>\<open>int\<close>
  (the columns are integers and the sums stay far below \<open>2^53\<close>).
\<close>

record token_transaction =
  tx_user_id :: string
  tx_amount :: int
  tx_description :: string
  tx_transaction_type :: string
  tx_source_type :: string

record user_tokens_row =
  ut_user_id :: string
  ut_balance :: int
  ut_level :: int
  ut_updated_at :: "string option"

record admin_users_row =
  au_user_id :: string

record database =
  token_transactions :: "token_transaction list"
  user_tokens :: "user_tokens_row list"
  admin_users :: "admin_users_row list"

record backend =
  fault_at :: "call \<Rightarrow> fault"
  getUser_email :: "string option outcome"
  is_admin_rpc :: "string \<Rightarrow> (json \<times> bool) outcome"
  now :: string

text \<open>
  \<^verbatim>\<open>.insert(row)\<close>: the boolean is the truthiness of the returned \<^verbatim>\<open>error\<close>. A call that
  reports an error or throws leaves the table as it was.
\<close>

definition insert_row :: "fault \<Rightarrow> 'r \<Rightarrow> 'r list \<Rightarrow> bool outcome \<times> 'r list" where
  "insert_row f r rows =
     (case f of
        NoFault \<Rightarrow> (Returns False, rows @ [r])
      | ErrorResult \<Rightarrow> (Returns True, rows)
      | Throws \<Rightarrow> (Raises, rows))"

text \<open>\<^verbatim>\<open>.update(values).eq(column, v)\<close>: every matching row is rewritten.\<close>

definition update_rows ::
  "fault \<Rightarrow> ('r \<Rightarrow> bool) \<Rightarrow> ('r \<Rightarrow> 'r) \<Rightarrow> 'r list \<Rightarrow> bool outcome \<times> 'r list" where
  "update_rows f p upd rows =
     (case f of
        NoFault \<Rightarrow> (Returns False, map (\<lambda>r. if p r then upd r else r) rows)
      | ErrorResult \<Rightarrow> (Returns True, rows)
      | Throws \<Rightarrow> (Raises, rows))"

text \<open>
  \<^verbatim>\<open>.select(..).eq(column, v).maybeSingle()\<close> applied to the matching rows: no row gives
  \<^verbatim>\<open>data = null\<close> without error, one row gives that row, several rows give an error.
\<close>

definition maybeSingle :: "fault \<Rightarrow> 'r list \<Rightarrow> ('r option \<times> bool) outcome" where
  "maybeSingle f matching =
     (case f of
        Throws \<Rightarrow> Raises
      | ErrorResult \<Rightarrow> Returns (None, True)
      | NoFault \<Rightarrow>
          (case matching of
             [] \<Rightarrow> Returns (None, False)
           | [r] \<Rightarrow> Returns (Some r, False)
           | _ \<Rightarrow> Returns (None, True)))"

section \<open>Reward accrual (\<^verbatim>\<open>src/utils/rewardUtils.ts\<close>)\<close>

definition getTokensForWasteSize :: "string \<Rightarrow> int" where
  "getTokensForWasteSize wasteSize =
     (if wasteSize = ''small'' then 5
      else if wasteSize = ''medium'' then 15
      else if wasteSize = ''large'' then 30
      else 0)"

text \<open>The text of the template literal on line 32.\<close>

definition reportDescription :: "string \<Rightarrow> string" where
  "reportDescription reportTitle = ''Waste report: '' @ reportTitle"

text \<open>
  Lines 42 to 94 of \<^verbatim>\<open>updateUserTokensForReport\<close>: the read of the account row and the
  insert or update that follows. The result is the value returned (or \<^const>\<open>Raises\<close> when a
  call throws), the store afterwards and the calls issued, in order.
\<close>

definition updateAccount ::
  "backend \<Rightarrow> string \<Rightarrow> int \<Rightarrow> database \<Rightarrow> bool outcome \<times> database \<times> call list" where
  "updateAccount be userId tokenAmount db =
     (case maybeSingle (fault_at be UserTokensSelect)
             (filter (\<lambda>r. ut_user_id r = userId) (user_tokens db)) of
        Raises \<Rightarrow> (Raises, db, [UserTokensSelect])
      | Returns (existingTokens, fetchError) \<Rightarrow>
          if fetchError then (Returns False, db, [UserTokensSelect])
          else
            (case existingTokens of
               None \<Rightarrow>
                 (let newLevel = (if tokenAmount \<ge> 50 then 2 else 1) in
                  case insert_row (fault_at be UserTokensInsert)
                         \<lparr>ut_user_id = userId, ut_balance = tokenAmount,
                          ut_level = newLevel, ut_updated_at = None\<rparr>
                         (user_tokens db) of
                    (Raises, rows) \<Rightarrow>
                      (Raises, db\<lparr>user_tokens := rows\<rparr>, [UserTokensSelect, UserTokensInsert])
                  | (Returns insertError, rows) \<Rightarrow>
                      if insertError
                      then (Returns False, db\<lparr>user_tokens := rows\<rparr>,
                            [UserTokensSelect, UserTokensInsert])
                      else (Returns True, db\<lparr>user_tokens := rows\<rparr>,
                            [UserTokensSelect, UserTokensInsert]))
             | Some found \<Rightarrow>
                 (let newBalance = ut_balance found + tokenAmount;
                      newLevel =
                        (if newBalance \<ge> 500 then 5
                         else if newBalance \<ge> 300 then 4
                         else if newBalance \<ge> 150 then 3
                         else if newBalance \<ge> 50 then 2 else 1) in
                  case update_rows (fault_at be UserTokensUpdate)
                         (\<lambda>r. ut_user_id r = userId)
                         (\<lambda>r. r\<lparr>ut_balance := newBalance, ut_level := newLevel,
                                 ut_updated_at := Some (now be)\<rparr>)
                         (user_tokens db) of
                    (Raises, rows) \<Rightarrow>
                      (Raises, db\<lparr>user_tokens := rows\<rparr>, [UserTokensSelect, UserTokensUpdate])
                  | (Returns updateError, rows) \<Rightarrow>
                      if updateError
                      then (Returns False, db\<lparr>user_tokens := rows\<rparr>,
                            [UserTokensSelect, UserTokensUpdate])
                      else (Returns True, db\<lparr>user_tokens := rows\<rparr>,
                            [UserTokensSelect, UserTokensUpdate]))))"

text \<open>The body of the \<^verbatim>\<open>try\<close> block, lines 19 to 94.\<close>

definition updateUserTokensForReport_try ::
  "backend \<Rightarrow> string \<Rightarrow> string \<Rightarrow> string \<Rightarrow> database
     \<Rightarrow> bool outcome \<times> database \<times> call list" where
  "updateUserTokensForReport_try be userId wasteSize reportTitle db =
     (let tokenAmount = getTokensForWasteSize wasteSize in
      if tokenAmount = 0 then (Returns False, db, [])
      else
        (case insert_row (fault_at be TokenTransactionsInsert)
                \<lparr>tx_user_id = userId, tx_amount = tokenAmount,
                 tx_description = reportDescription reportTitle,
                 tx_transaction_type = ''earned'', tx_source_type = ''waste_report''\<rparr>
                (token_transactions db) of
           (Raises, txs) \<Rightarrow> (Raises, db\<lparr>token_transactions := txs\<rparr>, [TokenTransactionsInsert])
         | (Returns transactionError, txs) \<Rightarrow>
             if transactionError
             then (Returns False, db\<lparr>token_transactions := txs\<rparr>, [TokenTransactionsInsert])
             else
               (case updateAccount be userId tokenAmount (db\<lparr>token_transactions := txs\<rparr>) of
                  (res, db', calls) \<Rightarrow> (res, db', TokenTransactionsInsert # calls))))"

text \<open>The \<^verbatim>\<open>catch\<close> on lines 96 to 99 turns every throw into the value \<^verbatim>\<open>false\<close>.\<close>

definition updateUserTokensForReport ::
  "backend \<Rightarrow> string \<Rightarrow> string \<Rightarrow> string \<Rightarrow> database
     \<Rightarrow> bool outcome \<times> database \<times> call list" where
  "updateUserTokensForReport be userId wasteSize reportTitle db =
     (case updateUserTokensForReport_try be userId wasteSize reportTitle db of
        (Raises, db', calls) \<Rightarrow> (Returns False, db', calls)
      | (Returns b, db', calls) \<Rightarrow> (Returns b, db', calls))"

section \<open>Administrator resolution (\<^verbatim>\<open>src/utils/adminUtils.ts\<close>)\<close>

text \<open>
  \<^verbatim>\<open>String.prototype.toLowerCase\<close> on the ASCII letters; strings are byte lists here.
\<close>

definition lowerChar :: "char \<Rightarrow> char" where
  "lowerChar c =
     (let n = (of_char c :: nat) in if 65 \<le> n \<and> n \<le> 90 then char_of (n + 32) else c)"

definition toLowerCase :: "string \<Rightarrow> string" where
  "toLowerCase s = map lowerChar s"

text \<open>
  The comparison \<^verbatim>\<open>authData?.user?.email?.toLowerCase() === ADMIN_EMAIL.toLowerCase()\<close>;
  a missing user or email makes the left side \<^verbatim>\<open>undefined\<close>, which equals no string.
  \<^verbatim>\<open>ADMIN_EMAIL\<close> comes from \<^verbatim>\<open>@/constants/auth\<close> and is a parameter.
\<close>

definition emailIsAdmin :: "string option \<Rightarrow> string \<Rightarrow> bool" where
  "emailIsAdmin email ADMIN_EMAIL =
     (case email of None \<Rightarrow> False | Some e \<Rightarrow> toLowerCase e = toLowerCase ADMIN_EMAIL)"

text \<open>Lines 38 to 52: the remote procedure and the final \<^verbatim>\<open>return false\<close>.\<close>

definition checkIsAdminRpc :: "backend \<Rightarrow> string \<Rightarrow> bool outcome" where
  "checkIsAdminRpc be userId =
     (case is_admin_rpc be userId of
        Raises \<Rightarrow> Returns False
      | Returns (isAdminData, isAdminError) \<Rightarrow>
          if \<not> isAdminError \<and> isAdminData = JBool True then Returns True else Returns False)"

text \<open>The body of the outer \<^verbatim>\<open>try\<close> block, lines 12 to 52.\<close>

definition checkUserIsAdmin_try ::
  "backend \<Rightarrow> string \<Rightarrow> string \<Rightarrow> database \<Rightarrow> bool outcome \<times> call list" where
  "checkUserIsAdmin_try be ADMIN_EMAIL userId db =
     (case getUser_email be of
        Raises \<Rightarrow> (Raises, [AuthGetUser])
      | Returns email \<Rightarrow>
          if emailIsAdmin email ADMIN_EMAIL then (Returns True, [AuthGetUser])
          else
            (case maybeSingle (fault_at be AdminUsersSelect)
                    (filter (\<lambda>r. au_user_id r = userId) (admin_users db)) of
               Raises \<Rightarrow>
                 (Returns (emailIsAdmin email ADMIN_EMAIL), [AuthGetUser, AdminUsersSelect])
             | Returns (adminData, adminError) \<Rightarrow>
                 if \<not> adminError \<and> adminData \<noteq> None
                 then (Returns True, [AuthGetUser, AdminUsersSelect])
                 else (checkIsAdminRpc be userId, [AuthGetUser, AdminUsersSelect, IsAdminRpc])))"

text \<open>Line 9 and the outer \<^verbatim>\<open>catch\<close> on lines 53 to 56.\<close>

definition checkUserIsAdmin ::
  "backend \<Rightarrow> string \<Rightarrow> string \<Rightarrow> database \<Rightarrow> bool outcome \<times> call list" where
  "checkUserIsAdmin be ADMIN_EMAIL userId db =
     (if userId = [] then (Returns False, [])
      else
        (case checkUserIsAdmin_try be ADMIN_EMAIL userId db of
           (Raises, calls) \<Rightarrow> (Returns False, calls)
         | (Returns b, calls) \<Rightarrow> (Returns b, calls)))"

section \<open>Membership upsert (\<^verbatim>\<open>addAdminUser\<close> in \<^verbatim>\<open>src/utils/dbUtils.ts\<close>)\<close>

text \<open>The body of the \<^verbatim>\<open>try\<close> block, lines 76 to 106.\<close>

definition addAdminUser_try ::
  "backend \<Rightarrow> string \<Rightarrow> database \<Rightarrow> bool outcome \<times> database \<times> call list" where
  "addAdminUser_try be userId db =
     (case maybeSingle (fault_at be AdminUsersSelect)
             (filter (\<lambda>r. au_user_id r = userId) (admin_users db)) of
        Raises \<Rightarrow> (Raises, db, [AdminUsersSelect])
      | Returns (existingAdmin, checkError) \<Rightarrow>
          if checkError then (Returns False, db, [AdminUsersSelect])
          else if existingAdmin \<noteq> None then (Returns True, db, [AdminUsersSelect])
          else
            (case insert_row (fault_at be AdminUsersInsert) \<lparr>au_user_id = userId\<rparr>
                    (admin_users db) of
               (Raises, rows) \<Rightarrow>
                 (Raises, db\<lparr>admin_users := rows\<rparr>, [AdminUsersSelect, AdminUsersInsert])
             | (Returns insertError, rows) \<Rightarrow>
                 if insertError
                 then (Returns False, db\<lparr>admin_users := rows\<rparr>,
                       [AdminUsersSelect, AdminUsersInsert])
                 else (Returns True, db\<lparr>admin_users := rows\<rparr>,
                       [AdminUsersSelect, AdminUsersInsert])))"

definition addAdminUser ::
  "backend \<Rightarrow> string \<Rightarrow> database \<Rightarrow> bool outcome \<times> database \<times> call list" where
  "addAdminUser be userId db =
     (case addAdminUser_try be userId db of
        (Raises, db', calls) \<Rightarrow> (Returns False, db', calls)
      | (Returns b, db', calls) \<Rightarrow> (Returns b, db', calls))"

section \<open>Vocabulary of the specification\<close>

text \<open>
  The level thresholds as the specification words them: evaluated top-down, first match
  wins.
\<close>

definition spec_level :: "int \<Rightarrow> int" where
  "spec_level balance =
     (if balance \<ge> 500 then 5
      else if balance \<ge> 300 then 4
      else if balance \<ge> 150 then 3
      else if balance \<ge> 50 then 2
      else 1)"

text \<open>The account rows and the membership rows of one user.\<close>

definition accountRows :: "string \<Rightarrow> database \<Rightarrow> user_tokens_row list" where
  "accountRows userId db = filter (\<lambda>r. ut_user_id r = userId) (user_tokens db)"

definition membershipRows :: "string \<Rightarrow> database \<Rightarrow> admin_users_row list" where
  "membershipRows userId db = filter (\<lambda>r. au_user_id r = userId) (admin_users db)"

text \<open>Every stored level is the threshold function of the stored balance.\<close>

definition levelInvariant :: "database \<Rightarrow> bool" where
  "levelInvariant db =
     list_all (\<lambda>r. ut_level r = spec_level (ut_balance r)) (user_tokens db)"

text \<open>The ledger record of an accrual.\<close>

definition earnedRecord :: "string \<Rightarrow> string \<Rightarrow> string \<Rightarrow> token_transaction" where
  "earnedRecord userId wasteSize reportTitle =
     \<lparr>tx_user_id = userId, tx_amount = getTokensForWasteSize wasteSize,
      tx_description = ''Waste report: '' @ reportTitle,
      tx_transaction_type = ''earned'', tx_source_type = ''waste_report''\<rparr>"

section \<open>Concrete stores and backends\<close>

text \<open>The administrator address the pages declare (\<^verbatim>\<open>src/pages/CollectWaste.tsx\<close>, line 303).\<close>

definition admin_email :: string where
  "admin_email = ''rububasumatarymionju56@gmail.com''"

definition empty_db :: database where
  "empty_db = \<lparr>token_transactions = [], user_tokens = [], admin_users = []\<rparr>"

text \<open>A user with balance 45 at level 1.\<close>

definition db_balance45 :: database where
  "db_balance45 =
     \<lparr>token_transactions = [],
      user_tokens = [\<lparr>ut_user_id = ''u1'', ut_balance = 45, ut_level = 1, ut_updated_at = None\<rparr>],
      admin_users = []\<rparr>"

text \<open>A store in which \<open>u7\<close> is a member.\<close>

definition db_member :: database where
  "db_member =
     \<lparr>token_transactions = [], user_tokens = [], admin_users = [\<lparr>au_user_id = ''u7''\<rparr>]\<rparr>"

text \<open>
  A backend on which every call succeeds; the session belongs to an ordinary user and the
  remote procedure answers \<^verbatim>\<open>false\<close>.
\<close>

definition demo_backend :: backend where
  "demo_backend =
     \<lparr>fault_at = (\<lambda>c. NoFault),
      getUser_email = Returns (Some ''volunteer@example.org''),
      is_admin_rpc = (\<lambda>u. Returns (JBool False, False)),
      now = ''2025-06-01T12:00:00.000Z''\<rparr>"

text \<open>The ledger insert reports an error.\<close>

definition ledger_error_backend :: backend where
  "ledger_error_backend =
     demo_backend\<lparr>fault_at := (\<lambda>c. if c = TokenTransactionsInsert then ErrorResult else NoFault)\<rparr>"

text \<open>The session of the administrator, the address written in another letter case.\<close>

definition admin_session_backend :: backend where
  "admin_session_backend =
     demo_backend\<lparr>getUser_email := Returns (Some ''RubuBasumataryMionju56@Gmail.com'')\<rparr>"

text \<open>The identity provider throws.\<close>

definition getUser_throws_backend :: backend where
  "getUser_throws_backend = demo_backend\<lparr>getUser_email := Raises\<rparr>"

text \<open>The membership lookup reports an error, or throws.\<close>

definition lookup_error_backend :: backend where
  "lookup_error_backend =
     demo_backend\<lparr>fault_at := (\<lambda>c. if c = AdminUsersSelect then ErrorResult else NoFault)\<rparr>"

definition lookup_throws_backend :: backend where
  "lookup_throws_backend =
     demo_backend\<lparr>fault_at := (\<lambda>c. if c = AdminUsersSelect then Throws else NoFault)\<rparr>"

text \<open>
  The membership lookup reports an error and the remote procedure answers \<^verbatim>\<open>true\<close>, or
  throws.
\<close>

definition lookup_error_rpc_true_backend :: backend where
  "lookup_error_rpc_true_backend =
     lookup_error_backend\<lparr>is_admin_rpc := (\<lambda>u. Returns (JBool True, False))\<rparr>"

definition lookup_error_rpc_throws_backend :: backend where
  "lookup_error_rpc_throws_backend = lookup_error_backend\<lparr>is_admin_rpc := (\<lambda>u. Raises)\<rparr>"

text \<open>The membership lookup throws although the remote procedure would answer \<^verbatim>\<open>true\<close>.\<close>

definition lookup_throws_rpc_true_backend :: backend where
  "lookup_throws_rpc_true_backend =
     lookup_throws_backend\<lparr>is_admin_rpc := (\<lambda>u. Returns (JBool True, False))\<rparr>"

text \<open>No membership row is found and the remote procedure throws.\<close>

definition rpc_throws_backend :: backend where
  "rpc_throws_backend = demo_backend\<lparr>is_admin_rpc := (\<lambda>u. Raises)\<rparr>"

text \<open>A user with balance 120 at level 2.\<close>

definition db_balance120 :: database where
  "db_balance120 =
     \<lparr>token_transactions = [],
      user_tokens = [\<lparr>ut_user_id = ''u1'', ut_balance = 120, ut_level = 2, ut_updated_at = None\<rparr>],
      admin_users = []\<rparr>"

section \<open>Auxiliary facts\<close>

lemma recognized_tokens:
  "wasteSize \<in> {''small'', ''medium'', ''large''} \<Longrightarrow>
     getTokensForWasteSize wasteSize \<in> {5, 15, 30}"
  by (auto simp: getTokensForWasteSize_def)

lemma filter_update_same:
  assumes "\<And>r. p (upd r) = p r"
  shows "filter p (map (\<lambda>r. if p r then upd r else r) rows) = map upd (filter p rows)"
  using assms by (induction rows) auto

lemma spec_level_range: "1 \<le> spec_level b \<and> spec_level b \<le> 5"
  by (simp add: spec_level_def)

lemma spec_level_mono: "b1 \<le> b2 \<Longrightarrow> spec_level b1 \<le> spec_level b2"
  by (simp add: spec_level_def)

text \<open>What a successful run of lines 42 to 94 did to the store.\<close>

lemma updateAccount_success:
  assumes "updateAccount be userId tokenAmount db = (Returns True, db', calls)"
  shows "(accountRows userId db = [] \<and>
          db' = db\<lparr>user_tokens := user_tokens db @
                   [\<lparr>ut_user_id = userId, ut_balance = tokenAmount,
                     ut_level = (if tokenAmount \<ge> 50 then 2 else 1), ut_updated_at = None\<rparr>]\<rparr>) \<or>
         (\<exists>found. accountRows userId db = [found] \<and>
            db' = db\<lparr>user_tokens := map (\<lambda>r. if ut_user_id r = userId
                 then r\<lparr>ut_balance := ut_balance found + tokenAmount,
                        ut_level := spec_level (ut_balance found + tokenAmount),
                        ut_updated_at := Some (now be)\<rparr> else r) (user_tokens db)\<rparr>)"
  using assms
  by (auto simp: updateAccount_def accountRows_def maybeSingle_def insert_row_def update_rows_def
        spec_level_def Let_def
      split: fault.splits list.splits if_splits)

text \<open>A successful accrual wrote the ledger record and then ran the account step.\<close>

lemma award_success:
  assumes "updateUserTokensForReport be userId wasteSize reportTitle db = (Returns True, db', calls)"
  shows "getTokensForWasteSize wasteSize \<noteq> 0 \<and>
         updateAccount be userId (getTokensForWasteSize wasteSize)
           (db\<lparr>token_transactions :=
                 token_transactions db @ [earnedRecord userId wasteSize reportTitle]\<rparr>)
           = (Returns True, db', tl calls)"
  using assms
  by (auto simp: updateUserTokensForReport_def updateUserTokensForReport_try_def insert_row_def
        earnedRecord_def reportDescription_def Let_def
      split: fault.splits if_splits prod.splits outcome.splits)

lemma existing_account_rows:
  assumes "wasteSize \<in> {''small'', ''medium'', ''large''}"
    and "found \<in> set (user_tokens db)" and "ut_user_id found = userId" and "ut_balance found = b"
    and "updateUserTokensForReport be userId wasteSize reportTitle db = (Returns True, db', calls)"
  shows "accountRows userId db' =
           [found\<lparr>ut_balance := b + getTokensForWasteSize wasteSize,
                  ut_level := spec_level (b + getTokensForWasteSize wasteSize),
                  ut_updated_at := Some (now be)\<rparr>]"
proof -
  let ?t = "getTokensForWasteSize wasteSize"
  let ?db1 = "db\<lparr>token_transactions :=
                   token_transactions db @ [earnedRecord userId wasteSize reportTitle]\<rparr>"
  from award_success [OF assms(5)]
  have acc: "updateAccount be userId ?t ?db1 = (Returns True, db', tl calls)" by simp
  have mem: "found \<in> set (accountRows userId ?db1)"
    using assms(2,3) by (simp add: accountRows_def)
  from updateAccount_success [OF acc] mem
  obtain f where f: "accountRows userId ?db1 = [f]"
    and db': "db' = ?db1\<lparr>user_tokens := map (\<lambda>r. if ut_user_id r = userId
                 then r\<lparr>ut_balance := ut_balance f + ?t,
                        ut_level := spec_level (ut_balance f + ?t),
                        ut_updated_at := Some (now be)\<rparr> else r) (user_tokens ?db1)\<rparr>"
    by auto
  from f mem have ff: "f = found" by simp
  have "accountRows userId db' =
      map (\<lambda>r. r\<lparr>ut_balance := ut_balance f + ?t,
                  ut_level := spec_level (ut_balance f + ?t),
                  ut_updated_at := Some (now be)\<rparr>) (accountRows userId ?db1)"
    unfolding accountRows_def db'
    by (simp add: filter_update_same [where p = "\<lambda>r. ut_user_id r = userId"])
  then show ?thesis using f ff assms(4) by simp
qed

lemma new_account_rows:
  assumes "wasteSize \<in> {''small'', ''medium'', ''large''}"
    and "accountRows userId db = []"
    and "updateUserTokensForReport be userId wasteSize reportTitle db = (Returns True, db', calls)"
  shows "accountRows userId db' =
           [\<lparr>ut_user_id = userId, ut_balance = getTokensForWasteSize wasteSize,
             ut_level = spec_level (getTokensForWasteSize wasteSize), ut_updated_at = None\<rparr>]"
proof -
  let ?t = "getTokensForWasteSize wasteSize"
  let ?db1 = "db\<lparr>token_transactions :=
                   token_transactions db @ [earnedRecord userId wasteSize reportTitle]\<rparr>"
  from award_success [OF assms(3)]
  have acc: "updateAccount be userId ?t ?db1 = (Returns True, db', tl calls)" by simp
  have none: "accountRows userId ?db1 = []"
    using assms(2) by (simp add: accountRows_def)
  from updateAccount_success [OF acc] none
  have db': "db' = ?db1\<lparr>user_tokens := user_tokens ?db1 @
                   [\<lparr>ut_user_id = userId, ut_balance = ?t,
                     ut_level = (if ?t \<ge> 50 then 2 else 1), ut_updated_at = None\<rparr>]\<rparr>"
    by auto
  have small: "?t < 50" using recognized_tokens [OF assms(1)] by auto
  have lvl: "(if ?t \<ge> 50 then 2 else 1) = spec_level ?t"
    using small by (simp add: spec_level_def)
  show ?thesis
    unfolding db' lvl using assms(2) by (simp add: accountRows_def)
qed

lemma award_preserves_levelInvariant:
  assumes "wasteSize \<in> {''small'', ''medium'', ''large''}"
    and "updateUserTokensForReport be userId wasteSize reportTitle db = (Returns True, db', calls)"
    and "levelInvariant db"
  shows "levelInvariant db'"
proof -
  let ?t = "getTokensForWasteSize wasteSize"
  let ?db1 = "db\<lparr>token_transactions :=
                   token_transactions db @ [earnedRecord userId wasteSize reportTitle]\<rparr>"
  from award_success [OF assms(2)]
  have acc: "updateAccount be userId ?t ?db1 = (Returns True, db', tl calls)" by simp
  have small: "?t < 50" using recognized_tokens [OF assms(1)] by auto
  have lvl: "(if ?t \<ge> 50 then 2 else 1) = spec_level ?t"
    using small by (simp add: spec_level_def)
  from updateAccount_success [OF acc] show ?thesis
    using assms(3) unfolding lvl
    by (auto simp: levelInvariant_def list_all_iff)
qed

lemma updateAccount_ledger:
  "token_transactions (fst (snd (updateAccount be userId tokenAmount db))) = token_transactions db"
  by (simp add: updateAccount_def maybeSingle_def insert_row_def update_rows_def Let_def
        split: fault.splits list.splits)

lemma award_catch_store:
  "fst (snd (updateUserTokensForReport be userId wasteSize reportTitle db)) =
   fst (snd (updateUserTokensForReport_try be userId wasteSize reportTitle db))"
  by (simp add: updateUserTokensForReport_def split: prod.splits outcome.splits)

text \<open>Concrete runs and comparisons used below.\<close>

lemmas run_defs =
  updateUserTokensForReport_def updateUserTokensForReport_try_def updateAccount_def
  getTokensForWasteSize_def reportDescription_def insert_row_def update_rows_def maybeSingle_def
  demo_backend_def empty_db_def db_balance45_def ledger_error_backend_def accountRows_def

lemma admin_session_matches:
  "emailIsAdmin (Some ''RubuBasumataryMionju56@Gmail.com'') admin_email"
  by code_simp

lemma volunteer_no_match:
  "\<not> emailIsAdmin (Some ''volunteer@example.org'') admin_email"
  by code_simp

lemma run_small_new_user:
  "updateUserTokensForReport demo_backend ''u1'' ''small'' ''Beach cleanup'' empty_db =
     (Returns True,
      \<lparr>token_transactions =
         [\<lparr>tx_user_id = ''u1'', tx_amount = 5, tx_description = ''Waste report: Beach cleanup'',
           tx_transaction_type = ''earned'', tx_source_type = ''waste_report''\<rparr>],
       user_tokens = [\<lparr>ut_user_id = ''u1'', ut_balance = 5, ut_level = 1, ut_updated_at = None\<rparr>],
       admin_users = []\<rparr>,
      [TokenTransactionsInsert, UserTokensSelect, UserTokensInsert])"
  by (simp add: run_defs)

lemma run_medium_balance45:
  "updateUserTokensForReport demo_backend ''u1'' ''medium'' ''Park'' db_balance45 =
     (Returns True,
      \<lparr>token_transactions =
         [\<lparr>tx_user_id = ''u1'', tx_amount = 15, tx_description = ''Waste report: Park'',
           tx_transaction_type = ''earned'', tx_source_type = ''waste_report''\<rparr>],
       user_tokens = [\<lparr>ut_user_id = ''u1'', ut_balance = 60, ut_level = 2,
                       ut_updated_at = Some ''2025-06-01T12:00:00.000Z''\<rparr>],
       admin_users = []\<rparr>,
      [TokenTransactionsInsert, UserTokensSelect, UserTokensUpdate])"
  by (simp add: run_defs)

text \<open>The ledger after an accrual with a recognized size.\<close>

lemma ledger_after_award:
  assumes "wasteSize \<in> {''small'', ''medium'', ''large''}"
  shows "token_transactions
           (fst (snd (updateUserTokensForReport be userId wasteSize reportTitle db))) =
           token_transactions db @
             (if fault_at be TokenTransactionsInsert = NoFault
              then [\<lparr>tx_user_id = userId, tx_amount = getTokensForWasteSize wasteSize,
                     tx_description = ''Waste report: '' @ reportTitle,
                     tx_transaction_type = ''earned'', tx_source_type = ''waste_report''\<rparr>]
              else [])"
proof -
  have nz: "getTokensForWasteSize wasteSize \<noteq> 0"
    using recognized_tokens [OF assms(1)] by auto
  show ?thesis
  proof (cases "fault_at be TokenTransactionsInsert")
    case NoFault
    let ?db1 = "db\<lparr>token_transactions := token_transactions db @
        [\<lparr>tx_user_id = userId, tx_amount = getTokensForWasteSize wasteSize,
          tx_description = reportDescription reportTitle,
          tx_transaction_type = ''earned'', tx_source_type = ''waste_report''\<rparr>]\<rparr>"
    have "fst (snd (updateUserTokensForReport_try be userId wasteSize reportTitle db)) =
          fst (snd (updateAccount be userId (getTokensForWasteSize wasteSize) ?db1))"
      using NoFault nz
      by (simp add: updateUserTokensForReport_try_def insert_row_def Let_def split: prod.splits)
    then show ?thesis
      using NoFault by (simp add: award_catch_store updateAccount_ledger reportDescription_def)
  qed (simp_all add: nz updateUserTokensForReport_def updateUserTokensForReport_try_def
         insert_row_def)
qed

lemma run_large_balance120:
  "updateUserTokensForReport demo_backend ''u1'' ''large'' ''Quay'' db_balance120 =
     (Returns True,
      \<lparr>token_transactions =
         [\<lparr>tx_user_id = ''u1'', tx_amount = 30, tx_description = ''Waste report: Quay'',
           tx_transaction_type = ''earned'', tx_source_type = ''waste_report''\<rparr>],
       user_tokens = [\<lparr>ut_user_id = ''u1'', ut_balance = 150, ut_level = 3,
                       ut_updated_at = Some ''2025-06-01T12:00:00.000Z''\<rparr>],
       admin_users = []\<rparr>,
      [TokenTransactionsInsert, UserTokensSelect, UserTokensUpdate])"
  by (simp add: run_defs db_balance120_def)

section \<open>Reward accrual: size table, ledger and account\<close>

text \<open>
  C1. A call with \<^verbatim>\<open>wasteSize\<close> \<^verbatim>\<open>small\<close>, \<^verbatim>\<open>medium\<close> or \<^verbatim>\<open>large\<close> awards exactly 5, 15 or
  30 tokens: that number is what the size table returns, it is the amount of the ledger
  record the call appends when the insert succeeds, and after a successful call it is the
  balance of the account row created for a user without one, or the increase of the balance
  of the user's existing row. For every other \<^verbatim>\<open>wasteSize\<close>, the empty string included,
  the award is 0 and the operation returns \<^verbatim>\<open>false\<close> with the store unchanged and no
  remote call issued: no ledger record is inserted and no account row is created or changed.
\<close>

theorem awardForReport_size_table:
  "(wasteSize = ''small'' \<and> k = 5 \<or> wasteSize = ''medium'' \<and> k = 15 \<or>
    wasteSize = ''large'' \<and> k = 30 \<longrightarrow>
      getTokensForWasteSize wasteSize = k \<and>
      token_transactions
        (fst (snd (updateUserTokensForReport be userId wasteSize reportTitle db))) =
        token_transactions db @
          (if fault_at be TokenTransactionsInsert = NoFault
           then [\<lparr>tx_user_id = userId, tx_amount = k,
                  tx_description = ''Waste report: '' @ reportTitle,
                  tx_transaction_type = ''earned'', tx_source_type = ''waste_report''\<rparr>]
           else []) \<and>
      (updateUserTokensForReport be userId wasteSize reportTitle db = (Returns True, db', calls) \<longrightarrow>
         (accountRows userId db = [] \<longrightarrow>
            accountRows userId db' =
              [\<lparr>ut_user_id = userId, ut_balance = k, ut_level = spec_level k,
                ut_updated_at = None\<rparr>]) \<and>
         (found \<in> set (user_tokens db) \<and> ut_user_id found = userId \<longrightarrow>
            accountRows userId db' =
              [found\<lparr>ut_balance := ut_balance found + k,
                     ut_level := spec_level (ut_balance found + k),
                     ut_updated_at := Some (now be)\<rparr>]))) \<and>
   (wasteSize \<notin> {''small'', ''medium'', ''large''} \<longrightarrow>
      getTokensForWasteSize wasteSize = 0 \<and>
      updateUserTokensForReport be userId wasteSize reportTitle db = (Returns False, db, []))"
proof (rule conjI)
  show "wasteSize \<notin> {''small'', ''medium'', ''large''} \<longrightarrow>
      getTokensForWasteSize wasteSize = 0 \<and>
      updateUserTokensForReport be userId wasteSize reportTitle db = (Returns False, db, [])"
    by (simp add: getTokensForWasteSize_def updateUserTokensForReport_def
          updateUserTokensForReport_try_def)
next
  let ?run = "updateUserTokensForReport be userId wasteSize reportTitle db"
  let ?created = "accountRows userId db' =
              [\<lparr>ut_user_id = userId, ut_balance = k, ut_level = spec_level k,
                ut_updated_at = None\<rparr>]"
  let ?updated = "accountRows userId db' =
              [found\<lparr>ut_balance := ut_balance found + k,
                     ut_level := spec_level (ut_balance found + k),
                     ut_updated_at := Some (now be)\<rparr>]"
  let ?ledger = "token_transactions (fst (snd ?run)) =
        token_transactions db @
          (if fault_at be TokenTransactionsInsert = NoFault
           then [\<lparr>tx_user_id = userId, tx_amount = k,
                  tx_description = ''Waste report: '' @ reportTitle,
                  tx_transaction_type = ''earned'', tx_source_type = ''waste_report''\<rparr>]
           else [])"
  show "wasteSize = ''small'' \<and> k = 5 \<or> wasteSize = ''medium'' \<and> k = 15 \<or>
        wasteSize = ''large'' \<and> k = 30 \<longrightarrow>
      getTokensForWasteSize wasteSize = k \<and> ?ledger \<and>
      (?run = (Returns True, db', calls) \<longrightarrow>
         (accountRows userId db = [] \<longrightarrow> ?created) \<and>
         (found \<in> set (user_tokens db) \<and> ut_user_id found = userId \<longrightarrow> ?updated))"
  proof
    assume sz: "wasteSize = ''small'' \<and> k = 5 \<or> wasteSize = ''medium'' \<and> k = 15 \<or>
        wasteSize = ''large'' \<and> k = 30"
    then have k: "getTokensForWasteSize wasteSize = k"
      and rec: "wasteSize \<in> {''small'', ''medium'', ''large''}"
      by (auto simp: getTokensForWasteSize_def)
    have ledger: ?ledger
      using ledger_after_award [OF rec, of be userId reportTitle db] by (simp add: k)
    have created: ?created
      if "?run = (Returns True, db', calls)" and "accountRows userId db = []"
      using new_account_rows [OF rec that(2) that(1)] by (simp add: k)
    have updated: ?updated
      if "?run = (Returns True, db', calls)"
        and "found \<in> set (user_tokens db) \<and> ut_user_id found = userId"
    proof -
      from that(2) have "found \<in> set (user_tokens db)" "ut_user_id found = userId" by simp_all
      from existing_account_rows [OF rec this refl that(1)] show ?thesis by (simp add: k)
    qed
    from k ledger created updated
    show "getTokensForWasteSize wasteSize = k \<and> ?ledger \<and>
      (?run = (Returns True, db', calls) \<longrightarrow>
         (accountRows userId db = [] \<longrightarrow> ?created) \<and>
         (found \<in> set (user_tokens db) \<and> ut_user_id found = userId \<longrightarrow> ?updated))"
      by blast
  qed
qed

theorem awardForReport_size_table_witness:
  "getTokensForWasteSize ''small'' = 5 \<and>
   fst (updateUserTokensForReport demo_backend ''u1'' ''small'' ''Beach cleanup'' empty_db)
     = Returns True \<and>
   token_transactions
     (fst (snd (updateUserTokensForReport demo_backend ''u1'' ''small'' ''Beach cleanup'' empty_db)))
     = [\<lparr>tx_user_id = ''u1'', tx_amount = 5, tx_description = ''Waste report: Beach cleanup'',
         tx_transaction_type = ''earned'', tx_source_type = ''waste_report''\<rparr>] \<and>
   accountRows ''u1'' empty_db = [] \<and>
   accountRows ''u1''
     (fst (snd (updateUserTokensForReport demo_backend ''u1'' ''small'' ''Beach cleanup'' empty_db)))
     = [\<lparr>ut_user_id = ''u1'', ut_balance = 5, ut_level = 1, ut_updated_at = None\<rparr>] \<and>
   getTokensForWasteSize ''medium'' = 15 \<and>
   \<lparr>ut_user_id = ''u1'', ut_balance = 45, ut_level = 1, ut_updated_at = None\<rparr>
     \<in> set (user_tokens db_balance45) \<and>
   fst (updateUserTokensForReport demo_backend ''u1'' ''medium'' ''Park'' db_balance45)
     = Returns True \<and>
   token_transactions
     (fst (snd (updateUserTokensForReport demo_backend ''u1'' ''medium'' ''Park'' db_balance45)))
     = [\<lparr>tx_user_id = ''u1'', tx_amount = 15, tx_description = ''Waste report: Park'',
         tx_transaction_type = ''earned'', tx_source_type = ''waste_report''\<rparr>] \<and>
   accountRows ''u1''
     (fst (snd (updateUserTokensForReport demo_backend ''u1'' ''medium'' ''Park'' db_balance45)))
     = [\<lparr>ut_user_id = ''u1'', ut_balance = 60, ut_level = 2,
         ut_updated_at = Some ''2025-06-01T12:00:00.000Z''\<rparr>] \<and>
   getTokensForWasteSize ''large'' = 30 \<and>
   \<lparr>ut_user_id = ''u1'', ut_balance = 120, ut_level = 2, ut_updated_at = None\<rparr>
     \<in> set (user_tokens db_balance120) \<and>
   fst (updateUserTokensForReport demo_backend ''u1'' ''large'' ''Quay'' db_balance120)
     = Returns True \<and>
   token_transactions
     (fst (snd (updateUserTokensForReport demo_backend ''u1'' ''large'' ''Quay'' db_balance120)))
     = [\<lparr>tx_user_id = ''u1'', tx_amount = 30, tx_description = ''Waste report: Quay'',
         tx_transaction_type = ''earned'', tx_source_type = ''waste_report''\<rparr>] \<and>
   accountRows ''u1''
     (fst (snd (updateUserTokensForReport demo_backend ''u1'' ''large'' ''Quay'' db_balance120)))
     = [\<lparr>ut_user_id = ''u1'', ut_balance = 150, ut_level = 3,
         ut_updated_at = Some ''2025-06-01T12:00:00.000Z''\<rparr>] \<and>
   ''huge'' \<notin> {''small'', ''medium'', ''large''} \<and>
   getTokensForWasteSize ''huge'' = 0 \<and>
   updateUserTokensForReport demo_backend ''u1'' ''huge'' ''x'' db_balance45
     = (Returns False, db_balance45, []) \<and>
   [] \<notin> {''small'', ''medium'', ''large''} \<and>
   getTokensForWasteSize [] = 0 \<and>
   updateUserTokensForReport demo_backend ''u1'' [] ''x'' db_balance45
     = (Returns False, db_balance45, [])"
proof -
  let ?row45 = "\<lparr>ut_user_id = ''u1'', ut_balance = 45, ut_level = 1, ut_updated_at = None\<rparr>"
  let ?row120 = "\<lparr>ut_user_id = ''u1'', ut_balance = 120, ut_level = 2, ut_updated_at = None\<rparr>"
  have none: "accountRows ''u1'' empty_db = []" by (simp add: accountRows_def empty_db_def)
  have row45: "?row45 \<in> set (user_tokens db_balance45)" by (simp add: db_balance45_def)
  have row120: "?row120 \<in> set (user_tokens db_balance120)" by (simp add: db_balance120_def)
  have clock: "now demo_backend = ''2025-06-01T12:00:00.000Z''"
    and quiet: "fault_at demo_backend TokenTransactionsInsert = NoFault"
    by (simp_all add: demo_backend_def)
  have e: "token_transactions empty_db = []" "token_transactions db_balance45 = []"
    "token_transactions db_balance120 = []"
    by (simp_all add: empty_db_def db_balance45_def db_balance120_def)
  have lv: "spec_level 5 = 1" "spec_level 60 = 2" "spec_level 150 = 3"
    by (simp_all add: spec_level_def)
  have small:
    "getTokensForWasteSize ''small'' = 5 \<and>
     fst (updateUserTokensForReport demo_backend ''u1'' ''small'' ''Beach cleanup'' empty_db)
       = Returns True \<and>
     token_transactions
       (fst (snd (updateUserTokensForReport demo_backend ''u1'' ''small'' ''Beach cleanup'' empty_db)))
       = [\<lparr>tx_user_id = ''u1'', tx_amount = 5, tx_description = ''Waste report: Beach cleanup'',
           tx_transaction_type = ''earned'', tx_source_type = ''waste_report''\<rparr>] \<and>
     accountRows ''u1''
       (fst (snd (updateUserTokensForReport demo_backend ''u1'' ''small'' ''Beach cleanup'' empty_db)))
       = [\<lparr>ut_user_id = ''u1'', ut_balance = 5, ut_level = 1, ut_updated_at = None\<rparr>]"
    using awardForReport_size_table
            [where wasteSize = "''small''" and k = 5 and be = demo_backend and userId = "''u1''"
               and reportTitle = "''Beach cleanup''" and db = empty_db
               and db' = "fst (snd (updateUserTokensForReport demo_backend ''u1'' ''small''
                                      ''Beach cleanup'' empty_db))"
               and calls = "snd (snd (updateUserTokensForReport demo_backend ''u1'' ''small''
                                      ''Beach cleanup'' empty_db))"]
      none quiet e lv
    by (simp add: run_small_new_user)
  have medium:
    "getTokensForWasteSize ''medium'' = 15 \<and>
     fst (updateUserTokensForReport demo_backend ''u1'' ''medium'' ''Park'' db_balance45)
       = Returns True \<and>
     token_transactions
       (fst (snd (updateUserTokensForReport demo_backend ''u1'' ''medium'' ''Park'' db_balance45)))
       = [\<lparr>tx_user_id = ''u1'', tx_amount = 15, tx_description = ''Waste report: Park'',
           tx_transaction_type = ''earned'', tx_source_type = ''waste_report''\<rparr>] \<and>
     accountRows ''u1''
       (fst (snd (updateUserTokensForReport demo_backend ''u1'' ''medium'' ''Park'' db_balance45)))
       = [\<lparr>ut_user_id = ''u1'', ut_balance = 60, ut_level = 2,
           ut_updated_at = Some ''2025-06-01T12:00:00.000Z''\<rparr>]"
    using awardForReport_size_table
            [where wasteSize = "''medium''" and k = 15 and be = demo_backend and userId = "''u1''"
               and reportTitle = "''Park''" and db = db_balance45 and found = ?row45
               and db' = "fst (snd (updateUserTokensForReport demo_backend ''u1'' ''medium''
                                      ''Park'' db_balance45))"
               and calls = "snd (snd (updateUserTokensForReport demo_backend ''u1'' ''medium''
                                      ''Park'' db_balance45))"]
      row45 quiet e lv clock
    by (simp add: run_medium_balance45)
  have large:
    "getTokensForWasteSize ''large'' = 30 \<and>
     fst (updateUserTokensForReport demo_backend ''u1'' ''large'' ''Quay'' db_balance120)
       = Returns True \<and>
     token_transactions
       (fst (snd (updateUserTokensForReport demo_backend ''u1'' ''large'' ''Quay'' db_balance120)))
       = [\<lparr>tx_user_id = ''u1'', tx_amount = 30, tx_description = ''Waste report: Quay'',
           tx_transaction_type = ''earned'', tx_source_type = ''waste_report''\<rparr>] \<and>
     accountRows ''u1''
       (fst (snd (updateUserTokensForReport demo_backend ''u1'' ''large'' ''Quay'' db_balance120)))
       = [\<lparr>ut_user_id = ''u1'', ut_balance = 150, ut_level = 3,
           ut_updated_at = Some ''2025-06-01T12:00:00.000Z''\<rparr>]"
    using awardForReport_size_table
            [where wasteSize = "''large''" and k = 30 and be = demo_backend and userId = "''u1''"
               and reportTitle = "''Quay''" and db = db_balance120 and found = ?row120
               and db' = "fst (snd (updateUserTokensForReport demo_backend ''u1'' ''large''
                                      ''Quay'' db_balance120))"
               and calls = "snd (snd (updateUserTokensForReport demo_backend ''u1'' ''large''
                                      ''Quay'' db_balance120))"]
      row120 quiet e lv clock
    by (simp add: run_large_balance120)
  have huge:
    "''huge'' \<notin> {''small'', ''medium'', ''large''} \<and>
     getTokensForWasteSize ''huge'' = 0 \<and>
     updateUserTokensForReport demo_backend ''u1'' ''huge'' ''x'' db_balance45
       = (Returns False, db_balance45, [])"
    using awardForReport_size_table
            [where wasteSize = "''huge''" and be = demo_backend and userId = "''u1''"
               and reportTitle = "''x''" and db = db_balance45]
    by simp
  have empty:
    "[] \<notin> {''small'', ''medium'', ''large''} \<and>
     getTokensForWasteSize [] = 0 \<and>
     updateUserTokensForReport demo_backend ''u1'' [] ''x'' db_balance45
       = (Returns False, db_balance45, [])"
    using awardForReport_size_table
            [where wasteSize = "[]" and be = demo_backend and userId = "''u1''"
               and reportTitle = "''x''" and db = db_balance45]
    by simp
  from small medium large huge empty none row45 row120 show ?thesis by blast
qed

text \<open>
  C2. With a recognized \<^verbatim>\<open>wasteSize\<close> and an account row of the user holding balance
  \<open>b\<close>, a call that returns \<^verbatim>\<open>true\<close> leaves exactly one account row for the user: the
  old row with balance \<open>b + tokens\<close> and the level the thresholds give for that new
  balance (500 and more gives 5, 300 and more 4, 150 and more 3, 50 and more 2, otherwise 1).
\<close>

theorem awardForReport_existing_account:
  assumes "wasteSize \<in> {''small'', ''medium'', ''large''}"
    and "found \<in> set (user_tokens db)" and "ut_user_id found = userId" and "ut_balance found = b"
    and "updateUserTokensForReport be userId wasteSize reportTitle db = (Returns True, db', calls)"
  shows "accountRows userId db' =
           [found\<lparr>ut_balance := b + getTokensForWasteSize wasteSize,
                  ut_level := spec_level (b + getTokensForWasteSize wasteSize),
                  ut_updated_at := Some (now be)\<rparr>]"
  using assms by (rule existing_account_rows)

theorem awardForReport_existing_account_witness:
  "''medium'' \<in> {''small'', ''medium'', ''large''} \<and>
   \<lparr>ut_user_id = ''u1'', ut_balance = 45, ut_level = 1, ut_updated_at = None\<rparr>
     \<in> set (user_tokens db_balance45) \<and>
   fst (updateUserTokensForReport demo_backend ''u1'' ''medium'' ''Park'' db_balance45)
     = Returns True \<and>
   accountRows ''u1''
     (fst (snd (updateUserTokensForReport demo_backend ''u1'' ''medium'' ''Park'' db_balance45)))
     = [\<lparr>ut_user_id = ''u1'', ut_balance = 60, ut_level = 2,
         ut_updated_at = Some ''2025-06-01T12:00:00.000Z''\<rparr>]"
proof -
  let ?found = "\<lparr>ut_user_id = ''u1'', ut_balance = 45, ut_level = 1, ut_updated_at = None\<rparr>"
  have size: "''medium'' \<in> {''small'', ''medium'', ''large''}" by simp
  have row: "?found \<in> set (user_tokens db_balance45)" by (simp add: db_balance45_def)
  have clock: "now demo_backend = ''2025-06-01T12:00:00.000Z''" by (simp add: demo_backend_def)
  from awardForReport_existing_account [OF size row _ _ run_medium_balance45, of 45]
  show ?thesis
    using row
    by (simp add: run_medium_balance45 getTokensForWasteSize_def spec_level_def clock)
qed

text \<open>
  C3. With a recognized \<^verbatim>\<open>wasteSize\<close> and no account row of the user, a call that returns
  \<^verbatim>\<open>true\<close> leaves exactly one account row for the user, with the award as balance and the
  level the same thresholds give for that balance.
\<close>

theorem awardForReport_new_account:
  assumes "wasteSize \<in> {''small'', ''medium'', ''large''}"
    and "accountRows userId db = []"
    and "updateUserTokensForReport be userId wasteSize reportTitle db = (Returns True, db', calls)"
  shows "accountRows userId db' =
           [\<lparr>ut_user_id = userId, ut_balance = getTokensForWasteSize wasteSize,
             ut_level = spec_level (getTokensForWasteSize wasteSize), ut_updated_at = None\<rparr>]"
  using assms by (rule new_account_rows)

theorem awardForReport_new_account_witness:
  "''small'' \<in> {''small'', ''medium'', ''large''} \<and>
   accountRows ''u1'' empty_db = [] \<and>
   fst (updateUserTokensForReport demo_backend ''u1'' ''small'' ''Beach cleanup'' empty_db)
     = Returns True \<and>
   accountRows ''u1''
     (fst (snd (updateUserTokensForReport demo_backend ''u1'' ''small'' ''Beach cleanup'' empty_db)))
     = [\<lparr>ut_user_id = ''u1'', ut_balance = 5, ut_level = 1, ut_updated_at = None\<rparr>]"
proof -
  have size: "''small'' \<in> {''small'', ''medium'', ''large''}" by simp
  have none: "accountRows ''u1'' empty_db = []" by (simp add: accountRows_def empty_db_def)
  from awardForReport_new_account [OF size none run_small_new_user]
  show ?thesis
    using none by (simp add: run_small_new_user getTokensForWasteSize_def spec_level_def)
qed

text \<open>
  C5. With a recognized \<^verbatim>\<open>wasteSize\<close>, when the insert of the ledger record fails (it
  reports an error or throws) the operation returns \<^verbatim>\<open>false\<close>, the store is exactly as
  before and the ledger insert is the only call issued: the account row is neither read nor
  written.
\<close>

theorem awardForReport_ledger_failure:
  assumes "wasteSize \<in> {''small'', ''medium'', ''large''}"
    and "fault_at be TokenTransactionsInsert \<noteq> NoFault"
  shows "updateUserTokensForReport be userId wasteSize reportTitle db =
           (Returns False, db, [TokenTransactionsInsert])"
proof -
  have "getTokensForWasteSize wasteSize \<noteq> 0"
    using recognized_tokens [OF assms(1)] by auto
  then show ?thesis using assms(2)
    by (cases "fault_at be TokenTransactionsInsert")
       (simp_all add: updateUserTokensForReport_def updateUserTokensForReport_try_def
          insert_row_def)
qed

theorem awardForReport_ledger_failure_witness:
  "''large'' \<in> {''small'', ''medium'', ''large''} \<and>
   fault_at ledger_error_backend TokenTransactionsInsert \<noteq> NoFault \<and>
   updateUserTokensForReport ledger_error_backend ''u1'' ''large'' ''Park'' db_balance45 =
     (Returns False, db_balance45, [TokenTransactionsInsert])"
  using awardForReport_ledger_failure
          [of "''large''" ledger_error_backend "''u1''" "''Park''" db_balance45]
  by (simp add: ledger_error_backend_def demo_backend_def)

text \<open>
  C8. After a successful accrual with a recognized \<^verbatim>\<open>wasteSize\<close>, on the create path and
  on the update path alike, the user's stored level is the threshold function of the stored
  balance and lies between 1 and 5, and a store in which every row satisfied this still
  does. The threshold function is monotonic and maps 49 to 1, 50 to 2, 149 to 2, 150 to 3,
  300 to 4 and 500 to 5.
\<close>

theorem awardForReport_level_invariant:
  "(wasteSize \<in> {''small'', ''medium'', ''large''} \<and>
    updateUserTokensForReport be userId wasteSize reportTitle db = (Returns True, db', calls) \<longrightarrow>
      (\<exists>r. accountRows userId db' = [r] \<and> ut_level r = spec_level (ut_balance r) \<and>
           1 \<le> ut_level r \<and> ut_level r \<le> 5) \<and>
      (levelInvariant db \<longrightarrow> levelInvariant db')) \<and>
   (\<forall>b1 b2. b1 \<le> b2 \<longrightarrow> spec_level b1 \<le> spec_level b2) \<and>
   (\<forall>b. 1 \<le> spec_level b \<and> spec_level b \<le> 5) \<and>
   spec_level 49 = 1 \<and> spec_level 50 = 2 \<and> spec_level 149 = 2 \<and>
   spec_level 150 = 3 \<and> spec_level 300 = 4 \<and> spec_level 500 = 5"
proof -
  have touched: "\<exists>r. accountRows userId db' = [r] \<and> ut_level r = spec_level (ut_balance r) \<and>
           1 \<le> ut_level r \<and> ut_level r \<le> 5"
    if rec: "wasteSize \<in> {''small'', ''medium'', ''large''}"
    and ok: "updateUserTokensForReport be userId wasteSize reportTitle db = (Returns True, db', calls)"
  proof (cases "accountRows userId db")
    case Nil
    from new_account_rows [OF rec Nil ok] show ?thesis by (simp add: spec_level_range)
  next
    case (Cons found rest)
    then have "found \<in> set (user_tokens db)" "ut_user_id found = userId"
      using filter_eq_ConsD [of "\<lambda>r. ut_user_id r = userId" "user_tokens db" found rest]
      by (auto simp: accountRows_def)
    from existing_account_rows [OF rec this refl ok] show ?thesis by (simp add: spec_level_range)
  qed
  show ?thesis
    using touched award_preserves_levelInvariant [of wasteSize be userId reportTitle db db' calls]
      spec_level_range spec_level_mono
    by (simp add: spec_level_def)
qed

theorem awardForReport_level_invariant_witness:
  "''medium'' \<in> {''small'', ''medium'', ''large''} \<and>
   fst (updateUserTokensForReport demo_backend ''u1'' ''medium'' ''Park'' db_balance45)
     = Returns True \<and>
   levelInvariant db_balance45 \<and>
   levelInvariant
     (fst (snd (updateUserTokensForReport demo_backend ''u1'' ''medium'' ''Park'' db_balance45))) \<and>
   (\<exists>r. accountRows ''u1''
          (fst (snd (updateUserTokensForReport demo_backend ''u1'' ''medium'' ''Park'' db_balance45)))
          = [r] \<and> ut_balance r = 60 \<and> ut_level r = spec_level 60 \<and> ut_level r = 2) \<and>
   (49::int) \<le> 50 \<and> spec_level 49 \<le> spec_level 50"
proof -
  have inv: "levelInvariant db_balance45"
    by (simp add: levelInvariant_def db_balance45_def spec_level_def)
  have lvl: "spec_level 60 = 2" by (simp add: spec_level_def)
  from awardForReport_level_invariant
         [of "''medium''" demo_backend "''u1''" "''Park''" db_balance45
             "fst (snd (updateUserTokensForReport demo_backend ''u1'' ''medium'' ''Park'' db_balance45))"
             "snd (snd (updateUserTokensForReport demo_backend ''u1'' ''medium'' ''Park'' db_balance45))"]
  show ?thesis
    using inv lvl by (simp add: run_medium_balance45 accountRows_def)
qed

text \<open>
  C9. With a recognized \<^verbatim>\<open>wasteSize\<close> the ledger grows by at most one record, and the
  record appended when the insert succeeds carries the user, the award for that size as
  amount, the type \<^verbatim>\<open>earned\<close>, the source \<^verbatim>\<open>waste_report\<close> and the description
  \<^verbatim>\<open>Waste report: \<close> followed by the report title. A \<^verbatim>\<open>small\<close> report titled
  \<^verbatim>\<open>Beach cleanup\<close> yields exactly one earned record of amount 5 with the title in its
  description.
\<close>

theorem awardForReport_ledger_record:
  assumes "wasteSize \<in> {''small'', ''medium'', ''large''}"
  shows "token_transactions
           (fst (snd (updateUserTokensForReport be userId wasteSize reportTitle db))) =
           token_transactions db @
             (if fault_at be TokenTransactionsInsert = NoFault
              then [\<lparr>tx_user_id = userId, tx_amount = getTokensForWasteSize wasteSize,
                     tx_description = ''Waste report: '' @ reportTitle,
                     tx_transaction_type = ''earned'', tx_source_type = ''waste_report''\<rparr>]
              else [])"
  using assms by (rule ledger_after_award)

theorem awardForReport_ledger_record_witness:
  "''small'' \<in> {''small'', ''medium'', ''large''} \<and>
   token_transactions
     (fst (snd (updateUserTokensForReport demo_backend ''u1'' ''small'' ''Beach cleanup'' empty_db)))
     = [\<lparr>tx_user_id = ''u1'', tx_amount = 5,
         tx_description = ''Waste report: Beach cleanup'',
         tx_transaction_type = ''earned'', tx_source_type = ''waste_report''\<rparr>]"
  using awardForReport_ledger_record
          [of "''small''" demo_backend "''u1''" "''Beach cleanup''" empty_db]
  by (simp add: demo_backend_def empty_db_def getTokensForWasteSize_def)

section \<open>Administrator resolution and membership\<close>

lemmas admin_defs =
  checkUserIsAdmin_def checkUserIsAdmin_try_def checkIsAdminRpc_def maybeSingle_def
  membershipRows_def

lemmas admin_inputs =
  demo_backend_def admin_session_backend_def getUser_throws_backend_def lookup_error_backend_def
  lookup_throws_backend_def lookup_error_rpc_true_backend_def lookup_error_rpc_throws_backend_def
  empty_db_def db_member_def

text \<open>
  C10. For the empty \<^verbatim>\<open>userId\<close> the resolver returns \<^verbatim>\<open>false\<close> at once and issues none
  of its calls, also when the session's address is the administrator's.
\<close>

theorem isAdmin_empty_userId:
  "checkUserIsAdmin be ADMIN_EMAIL [] db = (Returns False, []) \<and>
   emailIsAdmin (Some ADMIN_EMAIL) ADMIN_EMAIL \<and>
   checkUserIsAdmin (be\<lparr>getUser_email := Returns (Some ADMIN_EMAIL)\<rparr>) ADMIN_EMAIL [] db
     = (Returns False, [])"
  by (simp add: checkUserIsAdmin_def emailIsAdmin_def)

text \<open>
  C4, as stated, fails at the empty \<^verbatim>\<open>userId\<close>: the session's address matches the
  administrator's, in another letter case, and the resolver still returns \<^verbatim>\<open>false\<close>.
\<close>

theorem isAdmin_email_match_empty_userId:
  "getUser_email admin_session_backend = Returns (Some ''RubuBasumataryMionju56@Gmail.com'') \<and>
   emailIsAdmin (Some ''RubuBasumataryMionju56@Gmail.com'') admin_email \<and>
   checkUserIsAdmin admin_session_backend admin_email [] db_member = (Returns False, [])"
  using admin_session_matches
  by (simp add: checkUserIsAdmin_def admin_session_backend_def)

text \<open>
  C4, amended. For every non-empty \<^verbatim>\<open>userId\<close> the three checks run in order and stop at
  the first positive one. If fetching the session throws, the result is \<^verbatim>\<open>false\<close>. If
  the session's address matches the administrator's, ignoring letter case, the result is
  \<^verbatim>\<open>true\<close> after that single call, whatever the membership table holds. Otherwise, if the
  membership lookup finds the user's row without error, the result is \<^verbatim>\<open>true\<close> and the
  remote procedure is not called. Otherwise, if the lookup threw, the result is \<^verbatim>\<open>false\<close>
  and the remote procedure is not called. In the remaining cases (the lookup reported an
  error or did not find exactly one row) the remote procedure is called, and the result is
  \<^verbatim>\<open>true\<close> exactly when it returns the value \<^verbatim>\<open>true\<close> without error.
\<close>

theorem isAdmin_resolution_order:
  assumes "userId \<noteq> []"
  shows
   "(getUser_email be = Raises \<longrightarrow>
       checkUserIsAdmin be ADMIN_EMAIL userId db = (Returns False, [AuthGetUser])) \<and>
    (getUser_email be = Returns email \<and> emailIsAdmin email ADMIN_EMAIL \<longrightarrow>
       checkUserIsAdmin be ADMIN_EMAIL userId db = (Returns True, [AuthGetUser])) \<and>
    (getUser_email be = Returns email \<and> \<not> emailIsAdmin email ADMIN_EMAIL \<and>
     fault_at be AdminUsersSelect = NoFault \<and> membershipRows userId db = [row] \<longrightarrow>
       checkUserIsAdmin be ADMIN_EMAIL userId db =
         (Returns True, [AuthGetUser, AdminUsersSelect])) \<and>
    (getUser_email be = Returns email \<and> \<not> emailIsAdmin email ADMIN_EMAIL \<and>
     fault_at be AdminUsersSelect = Throws \<longrightarrow>
       checkUserIsAdmin be ADMIN_EMAIL userId db =
         (Returns False, [AuthGetUser, AdminUsersSelect])) \<and>
    (getUser_email be = Returns email \<and> \<not> emailIsAdmin email ADMIN_EMAIL \<and>
     (fault_at be AdminUsersSelect = ErrorResult \<or>
      fault_at be AdminUsersSelect = NoFault \<and> length (membershipRows userId db) \<noteq> 1) \<longrightarrow>
       checkUserIsAdmin be ADMIN_EMAIL userId db =
         (Returns (is_admin_rpc be userId = Returns (JBool True, False)),
          [AuthGetUser, AdminUsersSelect, IsAdminRpc]))"
  using assms
  by (auto simp: admin_defs split: list.splits outcome.splits)

theorem isAdmin_resolution_order_witness:
  "''u7'' \<noteq> [] \<and>
   checkUserIsAdmin getUser_throws_backend admin_email ''u7'' db_member
     = (Returns False, [AuthGetUser]) \<and>
   checkUserIsAdmin admin_session_backend admin_email ''u7'' empty_db
     = (Returns True, [AuthGetUser]) \<and>
   checkUserIsAdmin demo_backend admin_email ''u7'' db_member
     = (Returns True, [AuthGetUser, AdminUsersSelect]) \<and>
   checkUserIsAdmin lookup_throws_backend admin_email ''u7'' db_member
     = (Returns False, [AuthGetUser, AdminUsersSelect]) \<and>
   checkUserIsAdmin lookup_error_rpc_true_backend admin_email ''u7'' db_member
     = (Returns True, [AuthGetUser, AdminUsersSelect, IsAdminRpc]) \<and>
   checkUserIsAdmin demo_backend admin_email ''u7'' empty_db
     = (Returns False, [AuthGetUser, AdminUsersSelect, IsAdminRpc])"
proof -
  have ne: "''u7'' \<noteq> []" by simp
  note ord = isAdmin_resolution_order [OF ne]
  show ?thesis
    using ord [where be = getUser_throws_backend and ADMIN_EMAIL = admin_email and db = db_member]
      ord [where be = admin_session_backend and ADMIN_EMAIL = admin_email and db = empty_db
             and email = "Some ''RubuBasumataryMionju56@Gmail.com''"]
      ord [where be = demo_backend and ADMIN_EMAIL = admin_email and db = db_member
             and email = "Some ''volunteer@example.org''" and row = "\<lparr>au_user_id = ''u7''\<rparr>"]
      ord [where be = lookup_throws_backend and ADMIN_EMAIL = admin_email and db = db_member
             and email = "Some ''volunteer@example.org''"]
      ord [where be = lookup_error_rpc_true_backend and ADMIN_EMAIL = admin_email
             and db = db_member and email = "Some ''volunteer@example.org''"]
      ord [where be = demo_backend and ADMIN_EMAIL = admin_email and db = empty_db
             and email = "Some ''volunteer@example.org''"]
      admin_session_matches volunteer_no_match
    by (simp add: admin_inputs membershipRows_def)
qed

text \<open>
  C6, as stated, fails when the membership lookup fails by throwing: the session's address
  does not match, the remote procedure would answer \<^verbatim>\<open>true\<close>, and the resolver returns
  \<^verbatim>\<open>false\<close> after the lookup without calling the procedure. It also fails at the empty
  \<^verbatim>\<open>userId\<close>, where nothing is called even though the lookup would report an error and the
  procedure would answer \<^verbatim>\<open>true\<close>.
\<close>

theorem isAdmin_lookup_throw_skips_rpc:
  "getUser_email lookup_throws_rpc_true_backend = Returns (Some ''volunteer@example.org'') \<and>
   \<not> emailIsAdmin (Some ''volunteer@example.org'') admin_email \<and>
   fault_at lookup_throws_rpc_true_backend AdminUsersSelect = Throws \<and>
   is_admin_rpc lookup_throws_rpc_true_backend ''u7'' = Returns (JBool True, False) \<and>
   checkUserIsAdmin lookup_throws_rpc_true_backend admin_email ''u7'' empty_db
     = (Returns False, [AuthGetUser, AdminUsersSelect]) \<and>
   fault_at lookup_error_rpc_true_backend AdminUsersSelect = ErrorResult \<and>
   is_admin_rpc lookup_error_rpc_true_backend [] = Returns (JBool True, False) \<and>
   checkUserIsAdmin lookup_error_rpc_true_backend admin_email [] empty_db = (Returns False, [])"
  using volunteer_no_match
  by (simp add: admin_defs admin_inputs lookup_throws_rpc_true_backend_def)

text \<open>
  C6, amended. For every non-empty \<^verbatim>\<open>userId\<close> whose session address does not match the
  administrator's: when the reply of the membership lookup carries an error, the resolver
  does not abort, it calls the remote procedure and returns \<^verbatim>\<open>true\<close> exactly when the
  procedure returns the value \<^verbatim>\<open>true\<close> without error; when the lookup throws, the
  resolver returns \<^verbatim>\<open>false\<close> without calling the procedure; and whenever the procedure is
  reached (the lookup returned an error or no row) and throws, the throw is swallowed and
  the resolver returns \<^verbatim>\<open>false\<close>.
\<close>

theorem isAdmin_lookup_failure:
  assumes "userId \<noteq> []"
    and "getUser_email be = Returns email" and "\<not> emailIsAdmin email ADMIN_EMAIL"
  shows
    "(maybeSingle (fault_at be AdminUsersSelect) (membershipRows userId db)
        = Returns (adminData, True) \<longrightarrow>
        checkUserIsAdmin be ADMIN_EMAIL userId db =
          (Returns (is_admin_rpc be userId = Returns (JBool True, False)),
           [AuthGetUser, AdminUsersSelect, IsAdminRpc])) \<and>
     (maybeSingle (fault_at be AdminUsersSelect) (membershipRows userId db) = Raises \<longrightarrow>
        checkUserIsAdmin be ADMIN_EMAIL userId db =
          (Returns False, [AuthGetUser, AdminUsersSelect])) \<and>
     (maybeSingle (fault_at be AdminUsersSelect) (membershipRows userId db)
        = Returns (adminData, adminError) \<and> (adminError \<or> adminData = None) \<and>
      is_admin_rpc be userId = Raises \<longrightarrow>
        checkUserIsAdmin be ADMIN_EMAIL userId db =
          (Returns False, [AuthGetUser, AdminUsersSelect, IsAdminRpc]))"
  using assms
  by (auto simp: checkUserIsAdmin_def checkUserIsAdmin_try_def checkIsAdminRpc_def
        membershipRows_def split: outcome.splits prod.splits)

theorem isAdmin_lookup_failure_witness:
  "''u7'' \<noteq> [] \<and>
   \<not> emailIsAdmin (Some ''volunteer@example.org'') admin_email \<and>
   maybeSingle (fault_at lookup_error_rpc_true_backend AdminUsersSelect)
     (membershipRows ''u7'' db_member) = Returns (None, True) \<and>
   checkUserIsAdmin lookup_error_rpc_true_backend admin_email ''u7'' db_member
     = (Returns True, [AuthGetUser, AdminUsersSelect, IsAdminRpc]) \<and>
   maybeSingle (fault_at lookup_error_backend AdminUsersSelect)
     (membershipRows ''u7'' db_member) = Returns (None, True) \<and>
   checkUserIsAdmin lookup_error_backend admin_email ''u7'' db_member
     = (Returns False, [AuthGetUser, AdminUsersSelect, IsAdminRpc]) \<and>
   maybeSingle (fault_at lookup_throws_rpc_true_backend AdminUsersSelect)
     (membershipRows ''u7'' db_member) = Raises \<and>
   checkUserIsAdmin lookup_throws_rpc_true_backend admin_email ''u7'' db_member
     = (Returns False, [AuthGetUser, AdminUsersSelect]) \<and>
   maybeSingle (fault_at lookup_error_rpc_throws_backend AdminUsersSelect)
     (membershipRows ''u7'' db_member) = Returns (None, True) \<and>
   is_admin_rpc lookup_error_rpc_throws_backend ''u7'' = Raises \<and>
   checkUserIsAdmin lookup_error_rpc_throws_backend admin_email ''u7'' db_member
     = (Returns False, [AuthGetUser, AdminUsersSelect, IsAdminRpc]) \<and>
   maybeSingle (fault_at rpc_throws_backend AdminUsersSelect)
     (membershipRows ''u7'' empty_db) = Returns (None, False) \<and>
   is_admin_rpc rpc_throws_backend ''u7'' = Raises \<and>
   checkUserIsAdmin rpc_throws_backend admin_email ''u7'' empty_db
     = (Returns False, [AuthGetUser, AdminUsersSelect, IsAdminRpc])"
proof -
  have ne: "''u7'' \<noteq> []" by simp
  have e: "getUser_email lookup_error_rpc_true_backend = Returns (Some ''volunteer@example.org'')"
    "getUser_email lookup_error_backend = Returns (Some ''volunteer@example.org'')"
    "getUser_email lookup_throws_rpc_true_backend = Returns (Some ''volunteer@example.org'')"
    "getUser_email lookup_error_rpc_throws_backend = Returns (Some ''volunteer@example.org'')"
    "getUser_email rpc_throws_backend = Returns (Some ''volunteer@example.org'')"
    by (simp_all add: admin_inputs lookup_throws_rpc_true_backend_def rpc_throws_backend_def)
  have l: "maybeSingle (fault_at lookup_error_rpc_true_backend AdminUsersSelect)
             (membershipRows ''u7'' db_member) = Returns (None, True)"
    "maybeSingle (fault_at lookup_error_backend AdminUsersSelect)
             (membershipRows ''u7'' db_member) = Returns (None, True)"
    "maybeSingle (fault_at lookup_throws_rpc_true_backend AdminUsersSelect)
             (membershipRows ''u7'' db_member) = Raises"
    "maybeSingle (fault_at lookup_error_rpc_throws_backend AdminUsersSelect)
             (membershipRows ''u7'' db_member) = Returns (None, True)"
    "maybeSingle (fault_at rpc_throws_backend AdminUsersSelect)
             (membershipRows ''u7'' empty_db) = Returns (None, False)"
    by (simp_all add: admin_inputs lookup_throws_rpc_true_backend_def rpc_throws_backend_def
          maybeSingle_def membershipRows_def)
  have r: "is_admin_rpc lookup_error_rpc_true_backend ''u7'' = Returns (JBool True, False)"
    "is_admin_rpc lookup_error_backend ''u7'' = Returns (JBool False, False)"
    "is_admin_rpc lookup_error_rpc_throws_backend ''u7'' = Raises"
    "is_admin_rpc rpc_throws_backend ''u7'' = Raises"
    by (simp_all add: admin_inputs rpc_throws_backend_def)
  note inst = isAdmin_lookup_failure [OF ne _ volunteer_no_match]
  from inst [OF e(1), where db = db_member and adminData = None]
    inst [OF e(2), where db = db_member and adminData = None]
    inst [OF e(3), where db = db_member]
    inst [OF e(4), where db = db_member and adminData = None and adminError = True]
    inst [OF e(5), where db = empty_db and adminData = None and adminError = False]
  show ?thesis
    using volunteer_no_match l r by simp
qed

text \<open>
  C7, as stated, fails when the membership lookup reports an error: \<^verbatim>\<open>false\<close> is returned
  although no insert was attempted, let alone failed.
\<close>

theorem ensureMembership_lookup_error:
  "fault_at lookup_error_backend AdminUsersInsert = NoFault \<and>
   addAdminUser lookup_error_backend ''u7'' empty_db = (Returns False, empty_db, [AdminUsersSelect])"
  by (simp add: addAdminUser_def addAdminUser_try_def maybeSingle_def admin_inputs)

text \<open>
  C7, amended. When the lookup finds the user's row without error, the upsert returns
  \<^verbatim>\<open>true\<close> without writing; when it finds none without error and the insert succeeds,
  exactly one row is appended and \<^verbatim>\<open>true\<close> is returned. It returns \<^verbatim>\<open>false\<close> exactly
  when the lookup fails (an error, a throw, or more than one matching row) or, with no row
  found, the insert fails (an error or a throw). Two calls in sequence on which every call
  succeeds, for a user with at most one row, both return \<^verbatim>\<open>true\<close> and leave exactly one
  row for the user.
\<close>

theorem ensureMembership_upsert:
  "(fault_at be AdminUsersSelect = NoFault \<and> membershipRows userId db = [row] \<longrightarrow>
      addAdminUser be userId db = (Returns True, db, [AdminUsersSelect])) \<and>
   (fault_at be AdminUsersSelect = NoFault \<and> membershipRows userId db = [] \<and>
    fault_at be AdminUsersInsert = NoFault \<longrightarrow>
      addAdminUser be userId db =
        (Returns True, db\<lparr>admin_users := admin_users db @ [\<lparr>au_user_id = userId\<rparr>]\<rparr>,
         [AdminUsersSelect, AdminUsersInsert])) \<and>
   (fst (addAdminUser be userId db) = Returns False \<longleftrightarrow>
      fault_at be AdminUsersSelect \<noteq> NoFault \<or> 1 < length (membershipRows userId db) \<or>
      membershipRows userId db = [] \<and> fault_at be AdminUsersInsert \<noteq> NoFault) \<and>
   (fault_at be AdminUsersSelect = NoFault \<and> fault_at be AdminUsersInsert = NoFault \<and>
    fault_at be2 AdminUsersSelect = NoFault \<and> fault_at be2 AdminUsersInsert = NoFault \<and>
    length (membershipRows userId db) \<le> 1 \<longrightarrow>
      fst (addAdminUser be userId db) = Returns True \<and>
      fst (addAdminUser be2 userId (fst (snd (addAdminUser be userId db)))) = Returns True \<and>
      length (membershipRows userId
                (fst (snd (addAdminUser be2 userId (fst (snd (addAdminUser be userId db)))))))
        = 1)"
  by (cases "membershipRows userId db"; cases "tl (membershipRows userId db)";
      cases "fault_at be AdminUsersSelect"; cases "fault_at be AdminUsersInsert")
     (auto simp: addAdminUser_def addAdminUser_try_def maybeSingle_def insert_row_def
        membershipRows_def)

theorem ensureMembership_upsert_witness:
  "addAdminUser demo_backend ''u7'' db_member = (Returns True, db_member, [AdminUsersSelect]) \<and>
   addAdminUser demo_backend ''u7'' empty_db =
     (Returns True, db_member, [AdminUsersSelect, AdminUsersInsert]) \<and>
   fst (addAdminUser lookup_error_backend ''u7'' empty_db) = Returns False \<and>
   fst (addAdminUser demo_backend ''u7'' (fst (snd (addAdminUser demo_backend ''u7'' empty_db))))
     = Returns True \<and>
   length (membershipRows ''u7''
     (fst (snd (addAdminUser demo_backend ''u7''
                  (fst (snd (addAdminUser demo_backend ''u7'' empty_db))))))) = 1"
  using ensureMembership_upsert [where be = demo_backend and userId = "''u7''" and db = db_member
          and row = "\<lparr>au_user_id = ''u7''\<rparr>"]
    ensureMembership_upsert [where be = demo_backend and userId = "''u7''" and db = empty_db
          and ?be2.0 = demo_backend]
    ensureMembership_upsert [where be = lookup_error_backend and userId = "''u7''"
          and db = empty_db]
  by (simp add: admin_inputs membershipRows_def)

end
